theory Spec2Isabelle
  imports Main "HOL-Library.Word"
begin

section \<open>Data model of the ad serving engine (\<open>ads_impl.cc\<close>)\<close>

type_synonym uint64 = "64 word"
type_synonym uint32 = "32 word"
type_synonym int32 = "32 word"

text \<open>Undefined behaviour of the C++ source (a null \<open>unique_ptr\<close> dereferenced, an unsigned
  division by zero, \<open>front()\<close> of an empty vector) and the exception of \<open>vector::at\<close> are
  explicit error values.\<close>

datatype error = NullPointerDereference | DivisionByZero | OutOfRange | EmptyFront

datatype Result = SUCCESS | FAILED

record AdInfo =
  creative_set_id :: string
  advertiser :: string
  notification_text :: string
  notification_url :: string
  uuid :: string

text \<open>\<open>NotificationInfo\<close> has the fields \<open>advertiser\<close>, \<open>category\<close>, \<open>text\<close>, \<open>url\<close>,
  \<open>creative_set_id\<close> and \<open>uuid\<close>; they carry the prefix \<open>info_\<close> here.\<close>

record NotificationInfo =
  info_advertiser :: string
  info_category :: string
  info_text :: string
  info_url :: string
  info_creative_set_id :: string
  info_uuid :: string

definition NotificationInfo_default :: NotificationInfo where
  "NotificationInfo_default =
     \<lparr>info_advertiser = [], info_category = [], info_text = [], info_url = [],
      info_creative_set_id = [], info_uuid = []\<rparr>"

record UrlComponents =
  scheme :: string
  hostname :: string

record LoadInfo =
  tab_id :: int32
  tab_url :: string

text \<open>The page classifier (\<open>usermodel::UserModel\<close>, an external library) as the engine sees
  it: whether it reports itself initialized, and its \<open>winningCategory\<close> function. The type
  \<open>'d\<close> stands for the scores (\<open>double\<close> in the source); only its \<open>0\<close> and \<open>+\<close> are used,
  and no law about them is assumed.\<close>

record 'd UserModel =
  UserModel_IsInitialized :: bool
  winningCategory :: "'d list \<Rightarrow> string"

text \<open>The persistent client state, as far as the engine reads it back.\<close>

record 'd Client =
  client_locale :: string
  ads_shown_history :: "uint64 list"
  ads_uuid_seen :: "string \<rightharpoonup> uint64"
  page_score_history :: "'d list list"
  search_state :: bool
  shopping_state :: bool

text \<open>The records the engine hands to \<open>EventLog\<close>, before their serialisation to JSON; the
  first field is the time stamp.\<close>

datatype 'd event =
    LoadEvent string int32 string string "string list" "'d list option"
  | FocusEvent string int32
  | BlurEvent string int32

text \<open>The calls the engine makes on its collaborators (the host \<open>ads_client_\<close>, \<open>ads_serve_\<close>,
  \<open>bundle_\<close>, and those methods of \<open>client_\<close> whose effect the engine never reads back), in
  the order it makes them.\<close>

datatype 'd call =
    EventLog "'d event"
  | ShowNotification NotificationInfo
  | GetAds string string
  | LoadUserModelForLocale string
  | SetTimerCall uint64
  | KillTimer uint32
  | AdsServeReset
  | BundleReset
  | ClientUpdateLastUserActivity
  | ClientUpdateAdUUID

record 'd AdsImpl =
  is_first_run :: bool
  is_initialized :: bool
  is_foreground :: bool
  last_shown_tab_url :: string
  last_shown_notification_info :: NotificationInfo
  last_page_classification :: string
  page_score_cache :: "string \<rightharpoonup> 'd list"
  collect_activity_timer_id :: uint32
  sustained_ad_interaction_timer_id :: uint32
  media_playing :: "int32 \<rightharpoonup> bool"
  next_easter_egg :: uint64
  user_model :: "'d UserModel option"
  client :: "'d Client"
  calls :: "'d call list"

text \<open>What the collaborators answer during one call of the engine: the host's
  configuration and services, the catalog id of \<open>bundle_\<close>, and the helpers and constants
  whose definitions (\<open>time_helper.h\<close>, \<open>math_helper.h\<close>, \<open>string_helper.h\<close>,
  \<open>locale_helper.h\<close>, \<open>search_providers.h\<close>, \<open>static_values.h\<close>) are not part of the
  sources. \<open>GetUrlComponents\<close> gives the returned flag together with the contents of the
  out-parameter after the call.\<close>

record Env =
  IsAdsEnabled :: bool
  GetLocales :: "string list"
  GetAdsLocale :: string
  GetAdsPerHour :: uint64
  GetAdsPerDay :: uint64
  GetUrlComponents :: "string \<Rightarrow> bool \<times> UrlComponents"
  SetTimer :: "uint64 \<Rightarrow> uint32"
  GetCatalogId :: string
  Now :: uint64
  TimeStamp :: string
  Random :: "nat \<Rightarrow> nat"
  Split :: "string \<Rightarrow> char \<Rightarrow> string list"
  GetCountryCode :: "string \<Rightarrow> string"
  IsSearchEngine :: "UrlComponents \<Rightarrow> bool"
  kDefaultLanguage :: string
  kDebugOneHourInSeconds :: uint64
  kNextEasterEggStartsInSeconds :: uint64
  is_debug :: bool
  is_testing :: bool

text \<open>Modelled from the spec: \<open>static_values.h\<close> is not part of the sources; the spec
  gives \<open>kOneHourInSeconds = 3600\<close>.\<close>

definition kOneHourInSeconds :: uint64 where
  "kOneHourInSeconds = 3600"

section \<open>The client adapter\<close>

definition GetLocale :: "'d Client \<Rightarrow> string" where
  "GetLocale c = client_locale c"

definition GetAdsShownHistory :: "'d Client \<Rightarrow> uint64 list" where
  "GetAdsShownHistory c = ads_shown_history c"

definition GetAdsUUIDSeen :: "'d Client \<Rightarrow> (string \<rightharpoonup> uint64)" where
  "GetAdsUUIDSeen c = ads_uuid_seen c"

definition GetPageScoreHistory :: "'d Client \<Rightarrow> 'd list list" where
  "GetPageScoreHistory c = page_score_history c"

definition GetSearchState :: "'d Client \<Rightarrow> bool" where
  "GetSearchState c = search_state c"

text \<open>Modelled from the spec: \<open>Client::SetLocale\<close> is not part of the sources; the spec
  says the locale is stored in the client.\<close>

definition SetLocale :: "string \<Rightarrow> 'd Client \<Rightarrow> 'd Client" where
  "SetLocale l c = c\<lparr>client_locale := l\<rparr>"

text \<open>Modelled from the spec: \<open>Client::AppendCurrentTimeToAdsShownHistory\<close> is not part of
  the sources; the spec says \<open>now\<close> is appended to the ads-shown history.\<close>

definition AppendCurrentTimeToAdsShownHistory :: "Env \<Rightarrow> 'd Client \<Rightarrow> 'd Client" where
  "AppendCurrentTimeToAdsShownHistory e c =
     c\<lparr>ads_shown_history := ads_shown_history c @ [Now e]\<rparr>"

text \<open>Modelled from the spec: \<open>Client::ResetAdsUUIDSeen\<close> is not part of the sources; the
  spec says the seen set is reset for the candidate ads, that is, the uuids of the
  candidates are removed from it.\<close>

definition ResetAdsUUIDSeen :: "AdInfo list \<Rightarrow> 'd Client \<Rightarrow> 'd Client" where
  "ResetAdsUUIDSeen ads c =
     c\<lparr>ads_uuid_seen := foldl (\<lambda>seen ad. seen(uuid ad := None)) (ads_uuid_seen c) ads\<rparr>"

text \<open>Modelled from the spec: \<open>Client::RemoveAllHistory\<close> is not part of the sources; the
  spec says it clears the client history (the page-score and the ads-shown history).\<close>

definition Client_RemoveAllHistory :: "'d Client \<Rightarrow> 'd Client" where
  "Client_RemoveAllHistory c = c\<lparr>ads_shown_history := [], page_score_history := []\<rparr>"

text \<open>Modelled from the spec: the shopping and search flags of the client are not part of
  the sources; the spec says they are set, respectively unset.\<close>

definition FlagShoppingState :: "string \<Rightarrow> 'd Client \<Rightarrow> 'd Client" where
  "FlagShoppingState url c = c\<lparr>shopping_state := True\<rparr>"

definition UnflagShoppingState :: "'d Client \<Rightarrow> 'd Client" where
  "UnflagShoppingState c = c\<lparr>shopping_state := False\<rparr>"

definition FlagSearchState :: "string \<Rightarrow> 'd Client \<Rightarrow> 'd Client" where
  "FlagSearchState url c = c\<lparr>search_state := True\<rparr>"

definition UnflagSearchState :: "string \<Rightarrow> 'd Client \<Rightarrow> 'd Client" where
  "UnflagSearchState url c = c\<lparr>search_state := False\<rparr>"

section \<open>The engine\<close>

text \<open>The constructor: \<open>user_model_\<close> is a default (null) \<open>unique_ptr\<close>; the state of the
  freshly made \<open>Client\<close> is a parameter.\<close>

definition AdsImpl_ctor :: "'d Client \<Rightarrow> 'd AdsImpl" where
  "AdsImpl_ctor c =
     \<lparr>is_first_run = True, is_initialized = False, is_foreground = False,
      last_shown_tab_url = [], last_shown_notification_info = NotificationInfo_default,
      last_page_classification = [], page_score_cache = Map.empty,
      collect_activity_timer_id = 0, sustained_ad_interaction_timer_id = 0,
      media_playing = Map.empty, next_easter_egg = 0, user_model = None, client = c,
      calls = []\<rparr>"

text \<open>\<open>IsInitialized\<close>: the three disjuncts of \<open>||\<close> are evaluated left to right, and
  \<open>user_model_->IsInitialized()\<close> only when the first two are false.\<close>

definition IsInitialized :: "Env \<Rightarrow> 'd AdsImpl \<Rightarrow> error + bool" where
  "IsInitialized e s =
     (if \<not> is_initialized s then Inr False
      else if \<not> IsAdsEnabled e then Inr False
      else case user_model s of
             None \<Rightarrow> Inl NullPointerDereference
           | Some um \<Rightarrow> if \<not> UserModel_IsInitialized um then Inr False else Inr True)"

definition IsForeground :: "'d AdsImpl \<Rightarrow> bool" where
  "IsForeground s = is_foreground s"

definition IsMediaPlaying :: "'d AdsImpl \<Rightarrow> bool" where
  "IsMediaPlaying s = (if dom (media_playing s) = {} then False else True)"

definition LoadUserModel :: "'d AdsImpl \<Rightarrow> 'd AdsImpl" where
  "LoadUserModel s =
     (let locale = GetLocale (client s)
      in s\<lparr>calls := calls s @ [LoadUserModelForLocale locale]\<rparr>)"

text \<open>\<open>ChangeLocale\<close>; \<open>locale_components.front()\<close> is undefined on an empty vector.\<close>

definition ChangeLocale :: "Env \<Rightarrow> string \<Rightarrow> 'd AdsImpl \<Rightarrow> error + 'd AdsImpl" where
  "ChangeLocale e locale s =
     (case IsInitialized e s of
        Inl err \<Rightarrow> Inl err
      | Inr initialized \<Rightarrow>
          if \<not> initialized then Inr s
          else
            let locales = GetLocales e
            in if locale \<in> set locales
               then Inr (LoadUserModel (s\<lparr>client := SetLocale locale (client s)\<rparr>))
               else
                 (case Split e locale (CHR ''_'') of
                    [] \<Rightarrow> Inl EmptyFront
                  | language_code # _ \<Rightarrow>
                      let closest_match_for_locale =
                            (if language_code \<in> set locales then language_code
                             else kDefaultLanguage e)
                      in Inr (LoadUserModel
                           (s\<lparr>client := SetLocale closest_match_for_locale (client s)\<rparr>))))"

subsection \<open>Timers and deinitialization\<close>

definition IsCollectingActivity :: "'d AdsImpl \<Rightarrow> bool" where
  "IsCollectingActivity s = (if collect_activity_timer_id s = 0 then False else True)"

definition StopCollectingActivity :: "'d AdsImpl \<Rightarrow> 'd AdsImpl" where
  "StopCollectingActivity s =
     (if \<not> IsCollectingActivity s then s
      else s\<lparr>calls := calls s @ [KillTimer (collect_activity_timer_id s)],
             collect_activity_timer_id := 0\<rparr>)"

definition StartCollectingActivity :: "Env \<Rightarrow> uint64 \<Rightarrow> 'd AdsImpl \<Rightarrow> 'd AdsImpl" where
  "StartCollectingActivity e start_timer_in s =
     (let s1 = StopCollectingActivity s
      in s1\<lparr>calls := calls s1 @ [SetTimerCall start_timer_in],
             collect_activity_timer_id := SetTimer e start_timer_in\<rparr>)"

definition IsSustainingAdInteraction :: "'d AdsImpl \<Rightarrow> bool" where
  "IsSustainingAdInteraction s =
     (if sustained_ad_interaction_timer_id s = 0 then False else True)"

definition StopSustainingAdInteraction :: "'d AdsImpl \<Rightarrow> 'd AdsImpl" where
  "StopSustainingAdInteraction s =
     (if \<not> IsSustainingAdInteraction s then s
      else s\<lparr>calls := calls s @ [KillTimer (sustained_ad_interaction_timer_id s)],
             sustained_ad_interaction_timer_id := 0\<rparr>)"

definition ConfirmAdUUIDIfAdEnabled :: "Env \<Rightarrow> 'd AdsImpl \<Rightarrow> 'd AdsImpl" where
  "ConfirmAdUUIDIfAdEnabled e s =
     (if \<not> IsAdsEnabled e then StopCollectingActivity s
      else
        let s1 = s\<lparr>calls := calls s @ [ClientUpdateAdUUID]\<rparr>
        in if is_debug e then StartCollectingActivity e (kDebugOneHourInSeconds e) s1
           else StartCollectingActivity e kOneHourInSeconds s1)"

definition RemoveAllHistory :: "Env \<Rightarrow> 'd AdsImpl \<Rightarrow> 'd AdsImpl" where
  "RemoveAllHistory e s =
     ConfirmAdUUIDIfAdEnabled e (s\<lparr>client := Client_RemoveAllHistory (client s)\<rparr>)"

definition Deinitialize :: "Env \<Rightarrow> 'd AdsImpl \<Rightarrow> error + 'd AdsImpl" where
  "Deinitialize e s =
     (case IsInitialized e s of
        Inl err \<Rightarrow> Inl err
      | Inr initialized \<Rightarrow>
          if \<not> initialized then Inr s
          else
            let s1 = s\<lparr>calls := calls s @ [AdsServeReset]\<rparr>;
                s2 = StopSustainingAdInteraction s1;
                s3 = RemoveAllHistory e s2;
                s4 = s3\<lparr>calls := calls s3 @ [BundleReset]\<rparr>
            in Inr (s4\<lparr>user_model := None,
                       last_shown_notification_info := NotificationInfo_default,
                       last_page_classification := [],
                       page_score_cache := Map.empty,
                       is_first_run := True,
                       is_initialized := False,
                       is_foreground := False\<rparr>))"

subsection \<open>Rolling-time rate limits\<close>

text \<open>The loop of \<open>AdsShownHistoryRespectsRollingTimeConstraint\<close>: \<open>now - ad_shown\<close> is an
  unsigned 64-bit subtraction and \<open>recent_count\<close> a \<open>uint64_t\<close> counter.\<close>

fun recent_count_loop :: "uint64 \<Rightarrow> uint64 \<Rightarrow> uint64 list \<Rightarrow> uint64 \<Rightarrow> uint64" where
  "recent_count_loop now seconds_window [] recent_count = recent_count"
| "recent_count_loop now seconds_window (ad_shown # rest) recent_count =
     recent_count_loop now seconds_window rest
       (if now - ad_shown < seconds_window then recent_count + 1 else recent_count)"

definition AdsShownHistoryRespectsRollingTimeConstraint ::
  "Env \<Rightarrow> 'd AdsImpl \<Rightarrow> uint64 \<Rightarrow> uint64 \<Rightarrow> bool" where
  "AdsShownHistoryRespectsRollingTimeConstraint e s seconds_window allowable_ad_count =
     (let ads_shown_history = GetAdsShownHistory (client s);
          now = Now e;
          recent_count = recent_count_loop now seconds_window ads_shown_history 0
      in if recent_count \<le> allowable_ad_count then True else False)"

text \<open>\<open>IsAllowedToShowAds\<close>: the unsigned division \<open>hour_window / hour_allowed\<close> is undefined
  for a zero divisor; it comes after the hour and the day check, which have no effect.\<close>

definition IsAllowedToShowAds :: "Env \<Rightarrow> 'd AdsImpl \<Rightarrow> error + bool" where
  "IsAllowedToShowAds e s =
     (let hour_window = kOneHourInSeconds;
          hour_allowed = GetAdsPerHour e;
          respects_hour_limit =
            AdsShownHistoryRespectsRollingTimeConstraint e s hour_window hour_allowed;
          day_window = kOneHourInSeconds;
          day_allowed = GetAdsPerDay e;
          respects_day_limit =
            AdsShownHistoryRespectsRollingTimeConstraint e s day_window day_allowed
      in if hour_allowed = 0 then Inl DivisionByZero
         else
           let minimum_wait_time = hour_window div hour_allowed;
               respects_minimum_wait_time =
                 AdsShownHistoryRespectsRollingTimeConstraint e s minimum_wait_time 0
           in Inr (respects_hour_limit \<and> respects_day_limit \<and> respects_minimum_wait_time))"

subsection \<open>Winner over time\<close>

text \<open>The inner loop \<open>for (i = 0; i < page_scores.size(); i++) w[i] += page_scores[i]\<close>.\<close>

function add_page_scores :: "nat \<Rightarrow> 'd::plus list \<Rightarrow> 'd list \<Rightarrow> 'd list" where
  "add_page_scores i page_scores w =
     (if i < length page_scores
      then add_page_scores (Suc i) page_scores (w[i := w ! i + page_scores ! i])
      else w)"
  by pat_completeness auto
termination
  by (relation "measure (\<lambda>(i, page_scores, w). length page_scores - i)") auto

declare add_page_scores.simps [simp del]

text \<open>The outer loop over the history; \<open>None\<close> is the early \<open>return ""\<close> on a vector whose
  size is not \<open>count\<close>.\<close>

fun sum_page_score_history :: "nat \<Rightarrow> 'd::plus list list \<Rightarrow> 'd list \<Rightarrow> 'd list option" where
  "sum_page_score_history count [] w = Some w"
| "sum_page_score_history count (page_scores # rest) w =
     (if length page_scores \<noteq> count then None
      else sum_page_score_history count rest (add_page_scores 0 page_scores w))"

definition GetWinnerOverTimeCategory :: "('d::{zero,plus}) AdsImpl \<Rightarrow> error + string" where
  "GetWinnerOverTimeCategory s =
     (let page_score_history = GetPageScoreHistory (client s)
      in if length page_score_history = 0 then Inr []
         else
           let count = length (hd page_score_history);
               winner_over_time_page_scores = replicate count 0
           in case sum_page_score_history count page_score_history
                     winner_over_time_page_scores of
                None \<Rightarrow> Inr []
              | Some scores \<Rightarrow>
                  (case user_model s of
                     None \<Rightarrow> Inl NullPointerDereference
                   | Some um \<Rightarrow> Inr (winningCategory um scores)))"

subsection \<open>Showing an ad\<close>

definition IsAdValid :: "AdInfo \<Rightarrow> bool" where
  "IsAdValid ad_info =
     (if advertiser ad_info = [] \<or> notification_text ad_info = [] \<or>
         notification_url ad_info = []
      then False else True)"

definition ShowAd :: "Env \<Rightarrow> AdInfo \<Rightarrow> string \<Rightarrow> 'd AdsImpl \<Rightarrow> bool \<times> 'd AdsImpl" where
  "ShowAd e ad_info category s =
     (if \<not> IsAdValid ad_info then (False, s)
      else
        let notification_info =
              \<lparr>info_advertiser = advertiser ad_info,
               info_category = category,
               info_text = notification_text ad_info,
               info_url = notification_url ad_info,
               info_creative_set_id = creative_set_id ad_info,
               info_uuid = uuid ad_info\<rparr>;
            s1 = s\<lparr>last_shown_notification_info := notification_info\<rparr>;
            s2 = s1\<lparr>calls := calls s1 @ [ShowNotification notification_info]\<rparr>;
            s3 = s2\<lparr>client := AppendCurrentTimeToAdsShownHistory e (client s2)\<rparr>
        in (True, s3))"

subsection \<open>Ad selection\<close>

text \<open>\<open>std::remove_if\<close> followed by \<open>erase\<close> keeps, in order, the ads whose uuid is not a
  key of the seen map.\<close>

definition GetUnseenAds :: "AdInfo list \<Rightarrow> 'd AdsImpl \<Rightarrow> AdInfo list" where
  "GetUnseenAds ads s =
     (let ads_seen = GetAdsUUIDSeen (client s)
      in filter (\<lambda>info. \<not> (ads_seen (uuid info) \<noteq> None)) ads)"

text \<open>\<open>std::string::find_last_of\<close> for one character: the last position of the character,
  \<open>None\<close> for \<open>npos\<close>.\<close>

fun find_last_of :: "string \<Rightarrow> char \<Rightarrow> nat option" where
  "find_last_of [] c = None"
| "find_last_of (x # xs) c =
     (case find_last_of xs c of
        Some pos \<Rightarrow> Some (Suc pos)
      | None \<Rightarrow> if x = c then Some 0 else None)"

text \<open>One invocation of the callback \<open>OnGetAds\<close>. The request \<open>GetAds\<close> it may issue is
  answered by the host in a later invocation. \<open>ads_unseen.at(rand)\<close> throws out of range.\<close>

definition OnGetAds ::
  "Env \<Rightarrow> Result \<Rightarrow> string \<Rightarrow> string \<Rightarrow> AdInfo list \<Rightarrow> 'd AdsImpl \<Rightarrow> error + 'd AdsImpl" where
  "OnGetAds e result region category ads s =
     (let select = (\<lambda>ads_unseen s'.
            let rand = Random e (length ads_unseen - 1)
            in if rand < length ads_unseen
               then Inr (snd (ShowAd e (ads_unseen ! rand) category s'))
               else Inl OutOfRange);
          selection =
            (let ads_unseen = GetUnseenAds ads s
             in if ads_unseen = []
                then
                  let s1 = s\<lparr>client := ResetAdsUUIDSeen ads (client s)\<rparr>;
                      ads_unseen1 = GetUnseenAds ads s1
                  in if ads_unseen1 = [] then Inr s1 else select ads_unseen1 s1
                else select ads_unseen s)
      in if result = FAILED
         then
           (case find_last_of category (CHR ''-'') of
              Some pos \<Rightarrow>
                let new_category = take pos category
                in Inr (s\<lparr>calls := calls s @ [GetAds region new_category]\<rparr>)
            | None \<Rightarrow> if ads = [] then Inr s else selection)
         else selection)"

definition ServeAdFromCategory :: "Env \<Rightarrow> string \<Rightarrow> 'd AdsImpl \<Rightarrow> 'd AdsImpl" where
  "ServeAdFromCategory e category s =
     (let catalog_id = GetCatalogId e
      in if catalog_id = [] then s
         else if category = [] then s
         else
           let locale = GetAdsLocale e;
               region = GetCountryCode e locale
           in s\<lparr>calls := calls s @ [GetAds region category]\<rparr>)"

definition CheckReadyAdServe ::
  "Env \<Rightarrow> bool \<Rightarrow> ('d::{zero,plus}) AdsImpl \<Rightarrow> error + 'd AdsImpl" where
  "CheckReadyAdServe e forced s =
     (let serve =
            (case GetWinnerOverTimeCategory s of
               Inl err \<Rightarrow> Inl err
             | Inr category \<Rightarrow> Inr (ServeAdFromCategory e category s))
      in case IsInitialized e s of
           Inl err \<Rightarrow> Inl err
         | Inr initialized \<Rightarrow>
             if \<not> initialized then Inr s
             else if \<not> forced
             then
               if \<not> IsForeground s then Inr s
               else if IsMediaPlaying s then Inr s
               else
                 (case IsAllowedToShowAds e s of
                    Inl err \<Rightarrow> Inl err
                  | Inr allowed \<Rightarrow> if \<not> allowed then Inr s else serve)
             else serve)"

subsection \<open>Tab events\<close>

definition TestShoppingData :: "Env \<Rightarrow> string \<Rightarrow> 'd AdsImpl \<Rightarrow> error + 'd AdsImpl" where
  "TestShoppingData e url s =
     (case IsInitialized e s of
        Inl err \<Rightarrow> Inl err
      | Inr initialized \<Rightarrow>
          if \<not> initialized then Inr s
          else
            let (parsed, components) = GetUrlComponents e url
            in if \<not> parsed then Inr s
               else if hostname components = ''www.amazon.com''
               then Inr (s\<lparr>client := FlagShoppingState url (client s)\<rparr>)
               else Inr (s\<lparr>client := UnflagShoppingState (client s)\<rparr>))"

definition TestSearchState :: "Env \<Rightarrow> string \<Rightarrow> 'd AdsImpl \<Rightarrow> error + 'd AdsImpl" where
  "TestSearchState e url s =
     (case IsInitialized e s of
        Inl err \<Rightarrow> Inl err
      | Inr initialized \<Rightarrow>
          if \<not> initialized then Inr s
          else
            let (parsed, components) = GetUrlComponents e url
            in if \<not> parsed then Inr s
               else if IsSearchEngine e components
               then Inr (s\<lparr>client := FlagSearchState url (client s)\<rparr>)
               else Inr (s\<lparr>client := UnflagSearchState url (client s)\<rparr>))"

definition GenerateAdReportingFocusEvent :: "Env \<Rightarrow> int32 \<Rightarrow> 'd AdsImpl \<Rightarrow> 'd AdsImpl" where
  "GenerateAdReportingFocusEvent e focus_tab_id s =
     s\<lparr>calls := calls s @ [EventLog (FocusEvent (TimeStamp e) focus_tab_id)]\<rparr>"

definition GenerateAdReportingBlurEvent :: "Env \<Rightarrow> int32 \<Rightarrow> 'd AdsImpl \<Rightarrow> 'd AdsImpl" where
  "GenerateAdReportingBlurEvent e blur_tab_id s =
     s\<lparr>calls := calls s @ [EventLog (BlurEvent (TimeStamp e) blur_tab_id)]\<rparr>"

text \<open>\<open>GenerateAdReportingLoadEvent\<close>: the guard returns when \<open>GetUrlComponents\<close> answers
  true, and otherwise reads the scheme the host left in \<open>components\<close>.\<close>

definition GenerateAdReportingLoadEvent ::
  "Env \<Rightarrow> LoadInfo \<Rightarrow> ('d::{zero,plus}) AdsImpl \<Rightarrow> error + 'd AdsImpl" where
  "GenerateAdReportingLoadEvent e info s =
     (let (parsed, components) = GetUrlComponents e (tab_url info)
      in if parsed \<or> (scheme components \<noteq> ''http'' \<and> scheme components \<noteq> ''https'')
         then Inr s
         else
           let classifications = Split e (last_page_classification s) (CHR ''-'');
               load = LoadEvent (TimeStamp e) (tab_id info)
                        (if GetSearchState (client s) then ''search'' else ''click'')
                        (tab_url info) classifications (page_score_cache s (tab_url info));
               s1 = s\<lparr>calls := calls s @ [EventLog load]\<rparr>;
               now = Now e
           in if is_testing e \<and> tab_url info = ''https://www.iab.com/'' \<and>
                 next_easter_egg s1 < now
              then CheckReadyAdServe e True
                     (s1\<lparr>next_easter_egg := now + kNextEasterEggStartsInSeconds e\<rparr>)
              else Inr s1)"

definition TabUpdated ::
  "Env \<Rightarrow> int32 \<Rightarrow> string \<Rightarrow> bool \<Rightarrow> bool \<Rightarrow> ('d::{zero,plus}) AdsImpl \<Rightarrow> error + 'd AdsImpl" where
  "TabUpdated e tab url is_active is_incognito s =
     (if is_incognito then Inr s
      else
        let s1 = s\<lparr>calls := calls s @ [ClientUpdateLastUserActivity]\<rparr>;
            load_info = \<lparr>tab_id = tab, tab_url = url\<rparr>
        in case GenerateAdReportingLoadEvent e load_info s1 of
             Inl err \<Rightarrow> Inl err
           | Inr s2 \<Rightarrow>
               if is_active
               then
                 let s3 = s2\<lparr>last_shown_tab_url := url\<rparr>
                 in (case TestShoppingData e url s3 of
                       Inl err \<Rightarrow> Inl err
                     | Inr s4 \<Rightarrow>
                         (case TestSearchState e url s4 of
                            Inl err \<Rightarrow> Inl err
                          | Inr s5 \<Rightarrow> Inr (GenerateAdReportingFocusEvent e tab s5)))
               else Inr (GenerateAdReportingBlurEvent e tab s2))"

section \<open>Notions of the specification\<close>

text \<open>The number of dispatch timestamps \<open>t\<close> of a history with \<open>now - t < window\<close>.\<close>

definition count_within :: "uint64 list \<Rightarrow> uint64 \<Rightarrow> uint64 \<Rightarrow> nat" where
  "count_within history now window = length (filter (\<lambda>t. now - t < window) history)"

text \<open>The pointwise sum of the vectors of a history, as long as the first one: entry \<open>i\<close>
  adds up, in the order of the history and starting from \<open>0\<close>, the entries \<open>i\<close>.\<close>

definition pointwise_sum :: "('d::{zero,plus}) list list \<Rightarrow> 'd list" where
  "pointwise_sum history =
     map (\<lambda>i. foldl (+) 0 (map (\<lambda>page_scores. page_scores ! i) history))
       [0..<length (hd history)]"

definition uniform_length :: "'d list list \<Rightarrow> bool" where
  "uniform_length history = list_all (\<lambda>page_scores. length page_scores = length (hd history)) history"

text \<open>\<open>IsAdValid\<close> read on a notification: advertiser, text and url are not empty.\<close>

definition IsNotificationValid :: "NotificationInfo \<Rightarrow> bool" where
  "IsNotificationValid n = (info_advertiser n \<noteq> [] \<and> info_text n \<noteq> [] \<and> info_url n \<noteq> [])"

text \<open>The notifications handed to the host among a list of calls.\<close>

fun shown_notifications :: "'d call list \<Rightarrow> NotificationInfo list" where
  "shown_notifications [] = []"
| "shown_notifications (ShowNotification n # cs) = n # shown_notifications cs"
| "shown_notifications (c # cs) = shown_notifications cs"

text \<open>The candidate ads that are not in the seen set.\<close>

definition unseen_ads :: "AdInfo list \<Rightarrow> (string \<rightharpoonup> uint64) \<Rightarrow> AdInfo list" where
  "unseen_ads ads seen = filter (\<lambda>ad. uuid ad \<notin> dom seen) ads"

section \<open>Example configurations\<close>

definition example_client :: "int Client" where
  "example_client =
     \<lparr>client_locale = ''en'', ads_shown_history = [], ads_uuid_seen = Map.empty,
      page_score_history = [], search_state = False, shopping_state = False\<rparr>"

definition example_env :: Env where
  "example_env =
     \<lparr>IsAdsEnabled = True, GetLocales = [''en'', ''fr'', ''de''], GetAdsLocale = ''en_US'',
      GetAdsPerHour = 1, GetAdsPerDay = 1,
      GetUrlComponents = (\<lambda>url. (True, \<lparr>scheme = ''https'', hostname = ''brave.com''\<rparr>)),
      SetTimer = (\<lambda>seconds. 1), GetCatalogId = ''catalog'', Now = 10000,
      TimeStamp = ''stamp'', Random = (\<lambda>maximum. maximum),
      Split = (\<lambda>str delimiter. [takeWhile (\<lambda>c. c \<noteq> delimiter) str]),
      GetCountryCode = (\<lambda>l. ''US''), IsSearchEngine = (\<lambda>components. False),
      kDefaultLanguage = ''en'', kDebugOneHourInSeconds = 25,
      kNextEasterEggStartsInSeconds = 30, is_debug = False, is_testing = False\<rparr>"

definition example_user_model :: "int UserModel" where
  "example_user_model =
     \<lparr>UserModel_IsInitialized = True,
      winningCategory = (\<lambda>scores. if scores = [1, 9, 3] then ''sports'' else ''news'')\<rparr>"

definition example_engine :: "int AdsImpl" where
  "example_engine =
     (AdsImpl_ctor example_client)
       \<lparr>is_initialized := True, user_model := Some example_user_model\<rparr>"

definition example_engine_shown :: "int AdsImpl" where
  "example_engine_shown =
     example_engine\<lparr>client := example_client\<lparr>ads_shown_history := [6000, 5000]\<rparr>\<rparr>"

definition example_ad :: AdInfo where
  "example_ad =
     \<lparr>creative_set_id = ''set'', advertiser = ''Brave'', notification_text = ''Hello'',
      notification_url = ''https://brave.com/'', uuid = ''a1''\<rparr>"

definition example_ad2 :: AdInfo where
  "example_ad2 =
     \<lparr>creative_set_id = ''set'', advertiser = ''Brave'', notification_text = ''Again'',
      notification_url = ''https://brave.com/two'', uuid = ''a2''\<rparr>"

definition example_engine_seen :: "int AdsImpl" where
  "example_engine_seen =
     example_engine
       \<lparr>client := example_client\<lparr>ads_uuid_seen := [''a1'' \<mapsto> 1, ''a2'' \<mapsto> 1]\<rparr>\<rparr>"

definition example_engine_scores :: "int list list \<Rightarrow> int AdsImpl" where
  "example_engine_scores history =
     example_engine\<lparr>client := example_client\<lparr>page_score_history := history\<rparr>\<rparr>"

section \<open>Rate limits: proofs\<close>

lemma recent_count_loop_eq:
  "recent_count_loop now w h c = c + of_nat (count_within h now w)"
  by (induction h arbitrary: c) (simp_all add: count_within_def)

lemma count_within_le: "count_within h now w \<le> length h"
  by (simp add: count_within_def)

lemma recent_count_le_iff:
  assumes "length h < 2 ^ 64"
  shows "(recent_count_loop now w h 0 \<le> a) = (count_within h now w \<le> unat a)"
proof -
  have "count_within h now w < 2 ^ 64"
    using assms count_within_le [of h now w] by linarith
  then have "unat (of_nat (count_within h now w) :: uint64) = count_within h now w"
    by (simp add: unat_of_nat)
  then show ?thesis
    by (simp add: recent_count_loop_eq word_le_nat_alt)
qed

lemma respects_iff:
  assumes "length (ads_shown_history (client s)) < 2 ^ 64"
  shows "AdsShownHistoryRespectsRollingTimeConstraint e s w a =
         (count_within (ads_shown_history (client s)) (Now e) w \<le> unat a)"
  using recent_count_le_iff [OF assms]
  by (simp add: AdsShownHistoryRespectsRollingTimeConstraint_def GetAdsShownHistory_def)

lemmas example_simps =
  example_env_def example_engine_def example_engine_shown_def example_client_def
  example_user_model_def example_ad_def example_ad2_def example_engine_seen_def
  example_engine_scores_def AdsImpl_ctor_def NotificationInfo_default_def

text \<open>Claim C1, evaluated on the code. The host allows one ad per hour and one per day, the
  time is 10000, and two ads were shown at 6000 and 5000, that is 4000 and 5000 seconds ago.
  Both lie inside the last 86400 seconds, so the day limit of one ad is already exceeded,
  and yet \<open>IsAllowedToShowAds\<close> answers true: its day check counts over \<open>kOneHourInSeconds\<close>,
  where it finds no ad.\<close>

theorem IsAllowedToShowAds_ignores_day_window:
  "IsAllowedToShowAds example_env example_engine_shown = Inr True \<and>
   count_within (ads_shown_history (client example_engine_shown)) (Now example_env) 86400 = 2 \<and>
   unat (GetAdsPerDay example_env) = 1"
  by (simp add: IsAllowedToShowAds_def Let_def example_simps
      AdsShownHistoryRespectsRollingTimeConstraint_def GetAdsShownHistory_def
      kOneHourInSeconds_def count_within_def)

text \<open>Claim C2. With a non-zero \<open>GetAdsPerHour\<close> (claim C10 is about zero) and a history of
  fewer than \<open>2 ^ 64\<close> entries (the counter is a \<open>uint64_t\<close>), \<open>IsAllowedToShowAds\<close> returns,
  and returns true exactly when all three checks pass: the number of timestamps \<open>t\<close> with
  \<open>now - t < 3600\<close> is at most \<open>GetAdsPerHour\<close>; the number counted by the day check over
  its window, which is \<open>kOneHourInSeconds\<close>, is at most \<open>GetAdsPerDay\<close>; and the number of
  timestamps with \<open>now - t < 3600 / GetAdsPerHour\<close> is at most 0. The window comparisons
  are strict, the count comparisons inclusive.\<close>

theorem IsAllowedToShowAds_three_checks:
  assumes "GetAdsPerHour e \<noteq> 0"
      and "length (ads_shown_history (client s)) < 2 ^ 64"
  shows "IsAllowedToShowAds e s =
     Inr (count_within (ads_shown_history (client s)) (Now e) 3600 \<le> unat (GetAdsPerHour e) \<and>
          count_within (ads_shown_history (client s)) (Now e) kOneHourInSeconds
            \<le> unat (GetAdsPerDay e) \<and>
          count_within (ads_shown_history (client s)) (Now e) (3600 div GetAdsPerHour e) \<le> 0)"
  using assms(1)
  by (simp add: IsAllowedToShowAds_def Let_def respects_iff [OF assms(2)] kOneHourInSeconds_def)

theorem IsAllowedToShowAds_three_checks_witness:
  "GetAdsPerHour example_env \<noteq> 0 \<and>
   length (ads_shown_history (client example_engine_shown)) < 2 ^ 64 \<and>
   IsAllowedToShowAds example_env example_engine_shown = Inr True \<and>
   IsAllowedToShowAds (example_env\<lparr>Now := 8000\<rparr>) example_engine_shown = Inr False"
  using IsAllowedToShowAds_three_checks [of example_env example_engine_shown]
    IsAllowedToShowAds_three_checks [of "example_env\<lparr>Now := 8000\<rparr>" example_engine_shown]
  by (simp add: example_simps count_within_def kOneHourInSeconds_def)

text \<open>Claim C10. \<open>IsAllowedToShowAds\<close> divides \<open>3600\<close> by \<open>GetAdsPerHour\<close> without a guard:
  it ends in the division error exactly when the host answers zero, and returns a value
  exactly when the host answers a positive number.\<close>

theorem IsAllowedToShowAds_division_by_zero:
  "(IsAllowedToShowAds e s = Inl DivisionByZero) = (GetAdsPerHour e = 0) \<and>
   (\<exists>allowed. IsAllowedToShowAds e s = Inr allowed) = (0 < GetAdsPerHour e)"
  by (simp add: IsAllowedToShowAds_def Let_def word_greater_zero_iff)

section \<open>Winner over time: proofs\<close>

lemma add_page_scores_length [simp]:
  "length (add_page_scores i ps w) = length w"
  by (induction i ps w rule: add_page_scores.induct)
     (subst add_page_scores.simps, simp)

lemma add_page_scores_nth:
  assumes "length w = length ps" and "j < length w"
  shows "add_page_scores i ps w ! j = (if i \<le> j then w ! j + ps ! j else w ! j)"
  using assms
proof (induction i ps w rule: add_page_scores.induct)
  case (1 i ps w)
  show ?case
  proof (cases "i < length ps")
    case True
    then have "add_page_scores i ps w ! j =
        add_page_scores (Suc i) ps (w[i := w ! i + ps ! i]) ! j"
      by (subst add_page_scores.simps) simp
    also have "\<dots> = (if Suc i \<le> j then (w[i := w ! i + ps ! i]) ! j + ps ! j
                     else (w[i := w ! i + ps ! i]) ! j)"
      using "1.IH" [OF True] "1.prems" by simp
    also have "\<dots> = (if i \<le> j then w ! j + ps ! j else w ! j)"
      using "1.prems" by (cases "i = j") (auto simp: nth_list_update)
    finally show ?thesis .
  next
    case False
    then show ?thesis
      using "1.prems" by (subst add_page_scores.simps) simp
  qed
qed

lemma add_page_scores_map2:
  assumes "length w = length ps"
  shows "add_page_scores 0 ps w = map2 (+) w ps"
  using assms by (intro nth_equalityI) (simp_all add: add_page_scores_nth)

lemma sum_page_score_history_eq:
  assumes "length w = count"
  shows "sum_page_score_history count h w =
         (if list_all (\<lambda>ps. length ps = count) h then Some (foldl (map2 (+)) w h) else None)"
  using assms
  by (induction h arbitrary: w) (simp_all add: add_page_scores_map2)

lemma foldl_map2_length:
  "length w = n \<Longrightarrow> list_all (\<lambda>ps. length ps = n) h \<Longrightarrow> length (foldl (map2 (+)) w h) = n"
  by (induction h arbitrary: w) simp_all

lemma foldl_map2_nth:
  "length w = n \<Longrightarrow> list_all (\<lambda>ps. length ps = n) h \<Longrightarrow> i < n \<Longrightarrow>
   foldl (map2 (+)) w h ! i = foldl (+) (w ! i) (map (\<lambda>ps. ps ! i) h)"
  by (induction h arbitrary: w) simp_all

lemma foldl_map2_pointwise:
  assumes "list_all (\<lambda>ps. length ps = length (hd h)) h"
  shows "foldl (map2 (+)) (replicate (length (hd h)) 0) h = pointwise_sum h"
  using assms
  by (intro nth_equalityI)
     (simp_all add: pointwise_sum_def foldl_map2_length foldl_map2_nth)

text \<open>Claim C3. \<open>GetWinnerOverTimeCategory\<close> returns the empty string on an empty page-score
  history; it returns the empty string when some vector of the history is not as long as
  the first one, whatever it has added up before; and otherwise, with the classifier in
  place, it returns the classifier's winning category of the pointwise sum of all vectors
  of the history. The scores are of any type with a \<open>0\<close> and a \<open>+\<close>, added in the order of
  the history.\<close>

theorem GetWinnerOverTimeCategory_pointwise_sum:
  "(page_score_history (client s) = [] \<longrightarrow> GetWinnerOverTimeCategory s = Inr []) \<and>
   (page_score_history (client s) \<noteq> [] \<and> \<not> uniform_length (page_score_history (client s)) \<longrightarrow>
      GetWinnerOverTimeCategory s = Inr []) \<and>
   (page_score_history (client s) \<noteq> [] \<and> uniform_length (page_score_history (client s)) \<and>
    user_model s = Some um \<longrightarrow>
      GetWinnerOverTimeCategory s =
        Inr (winningCategory um (pointwise_sum (page_score_history (client s)))))"
  by (simp add: GetWinnerOverTimeCategory_def GetPageScoreHistory_def Let_def uniform_length_def
      sum_page_score_history_eq foldl_map2_pointwise)

theorem GetWinnerOverTimeCategory_pointwise_sum_witness:
  "page_score_history (client (example_engine_scores [])) = [] \<and>
   GetWinnerOverTimeCategory (example_engine_scores []) = Inr [] \<and>
   \<not> uniform_length (page_score_history (client (example_engine_scores [[1, 2], [3]]))) \<and>
   GetWinnerOverTimeCategory (example_engine_scores [[1, 2], [3]]) = Inr [] \<and>
   uniform_length (page_score_history (client (example_engine_scores [[0, 7, 2], [1, 2, 1]]))) \<and>
   pointwise_sum [[0, 7, 2], [1, 2, 1 :: int]] = [1, 9, 3] \<and>
   GetWinnerOverTimeCategory (example_engine_scores [[0, 7, 2], [1, 2, 1]]) = Inr ''sports''"
  using GetWinnerOverTimeCategory_pointwise_sum
      [of "example_engine_scores []" example_user_model]
    GetWinnerOverTimeCategory_pointwise_sum
      [of "example_engine_scores [[1, 2], [3]]" example_user_model]
    GetWinnerOverTimeCategory_pointwise_sum
      [of "example_engine_scores [[0, 7, 2], [1, 2, 1]]" example_user_model]
  by (simp add: example_simps uniform_length_def pointwise_sum_def upt_rec)

section \<open>Showing an ad: proofs\<close>

text \<open>Claim C4. An ad that fails \<open>IsAdValid\<close> makes \<open>ShowAd\<close> return false and leave the
  whole state as it is: the ads-shown history, \<open>last_shown_notification_info\<close> and the seen
  set included. Whatever \<open>ShowAd\<close> hands to the host's \<open>ShowNotification\<close> has a non-empty
  advertiser, text and url; for a valid ad it is exactly one notification, made of the
  ad's fields and the category.\<close>

theorem ShowAd_only_valid_ads:
  "(\<not> IsAdValid ad \<longrightarrow> ShowAd e ad category s = (False, s)) \<and>
   (\<exists>new. calls (snd (ShowAd e ad category s)) = calls s @ new \<and>
          list_all IsNotificationValid (shown_notifications new) \<and>
          (IsAdValid ad \<longrightarrow>
             fst (ShowAd e ad category s) \<and>
             shown_notifications new =
               [\<lparr>info_advertiser = advertiser ad, info_category = category,
                 info_text = notification_text ad, info_url = notification_url ad,
                 info_creative_set_id = creative_set_id ad, info_uuid = uuid ad\<rparr>]))"
  by (simp add: ShowAd_def IsAdValid_def IsNotificationValid_def Let_def)

theorem ShowAd_only_valid_ads_witness:
  "\<not> IsAdValid (example_ad\<lparr>notification_text := []\<rparr>) \<and>
   ShowAd example_env (example_ad\<lparr>notification_text := []\<rparr>) ''news'' example_engine =
     (False, example_engine) \<and>
   IsAdValid example_ad \<and>
   fst (ShowAd example_env example_ad ''news'' example_engine)"
  using ShowAd_only_valid_ads
      [of "example_ad\<lparr>notification_text := []\<rparr>" example_env "''news''" example_engine]
    ShowAd_only_valid_ads [of example_ad example_env "''news''" example_engine]
  by (simp add: IsAdValid_def example_simps)

section \<open>Ad selection: proofs\<close>

lemma shown_notifications_append:
  "shown_notifications (xs @ ys) = shown_notifications xs @ shown_notifications ys"
  by (induction xs rule: shown_notifications.induct) simp_all

lemma reset_seen_apply:
  "foldl (\<lambda>seen ad. seen(uuid ad := None)) m ads u =
     (if u \<in> uuid ` set ads then None else m u)"
  by (induction ads arbitrary: m) auto

lemma dom_ResetAdsUUIDSeen:
  "dom (ads_uuid_seen (ResetAdsUUIDSeen ads c)) = dom (ads_uuid_seen c) - uuid ` set ads"
  by (auto simp: ResetAdsUUIDSeen_def reset_seen_apply dom_def)

lemma GetUnseenAds_eq:
  "GetUnseenAds ads s = unseen_ads ads (ads_uuid_seen (client s))"
  by (simp add: GetUnseenAds_def unseen_ads_def GetAdsUUIDSeen_def dom_def)

lemma find_last_of_None: "(find_last_of str c = None) = (c \<notin> set str)"
  by (induction str) (auto split: option.splits)

lemma find_last_of_Some:
  "find_last_of str c = Some pos \<Longrightarrow>
   \<exists>rest. str = take pos str @ c # rest \<and> c \<notin> set rest"
proof (induction str arbitrary: pos)
  case Nil
  then show ?case by simp
next
  case (Cons x xs)
  show ?case
  proof (cases "find_last_of xs c")
    case None
    with Cons.prems have "x = c" "pos = 0"
      by (auto split: if_splits)
    moreover from None have "c \<notin> set xs"
      by (simp add: find_last_of_None)
    ultimately show ?thesis by simp
  next
    case (Some p)
    with Cons.prems have pos: "pos = Suc p" by simp
    from Cons.IH [OF Some] obtain rest where "xs = take p xs @ c # rest" "c \<notin> set rest"
      by blast
    then show ?thesis
      using pos by (intro exI [of _ rest]) simp
  qed
qed

text \<open>Claim C5. An invocation of \<open>OnGetAds\<close> reaches the ad selection when the result is
  \<open>SUCCESS\<close>, or when it is \<open>FAILED\<close> with a category without \<open>-\<close> and a non-empty list of
  ads. There the engine computes the unseen ads as the candidates whose uuid is not in the
  client's seen set. If there is none, it resets the seen set for exactly the candidate
  list (which removes the candidates' uuids) and computes the unseen ads again; if there
  is still none, it returns with nothing dispatched. Otherwise it calls \<open>ShowAd\<close> on the
  element of the unseen ads at the position drawn by \<open>Random (size - 1)\<close>. The draw is that
  of \<open>helper::Math::Random\<close>, taken here as any number up to its argument: every position
  of the unseen ads is hit by one draw, and every draw hits an unseen ad.\<close>

theorem OnGetAds_selects_unseen_ad:
  assumes "result = SUCCESS \<or> (CHR ''-'' \<notin> set category \<and> ads \<noteq> [])"
      and "\<forall>n. Random e n \<le> n"
  shows "OnGetAds e result region category ads s =
     (let unseen = unseen_ads ads (ads_uuid_seen (client s));
          s_reset = s\<lparr>client := ResetAdsUUIDSeen ads (client s)\<rparr>;
          unseen_reset = unseen_ads ads (ads_uuid_seen (client s_reset))
      in if unseen \<noteq> []
         then Inr (snd (ShowAd e (unseen ! Random e (length unseen - 1)) category s))
         else if unseen_reset = [] then Inr s_reset
         else Inr (snd (ShowAd e (unseen_reset ! Random e (length unseen_reset - 1))
                          category s_reset))) \<and>
     dom (ads_uuid_seen (ResetAdsUUIDSeen ads (client s))) =
       dom (ads_uuid_seen (client s)) - uuid ` set ads \<and>
     (\<forall>unseen :: AdInfo list.
        unseen \<noteq> [] \<longrightarrow> unseen ! Random e (length unseen - 1) \<in> set unseen)"
proof -
  have range: "xs \<noteq> [] \<Longrightarrow> Random e (length xs - 1) < length xs" for xs :: "AdInfo list"
    using assms(2) [rule_format, of "length xs - 1"] by (cases xs) auto
  have sel: "find_last_of category (CHR ''-'') = None \<and> ads \<noteq> []" if "result = FAILED"
    using assms(1) that by (simp add: find_last_of_None)
  show ?thesis
  proof (cases result)
    case SUCCESS
    then show ?thesis
      using range by (auto simp: OnGetAds_def GetUnseenAds_eq Let_def dom_ResetAdsUUIDSeen)
  next
    case FAILED
    then show ?thesis
      using range sel [OF FAILED]
      by (auto simp: OnGetAds_def GetUnseenAds_eq Let_def dom_ResetAdsUUIDSeen)
  qed
qed

theorem OnGetAds_selects_unseen_ad_witness:
  "(SUCCESS = SUCCESS \<or> (CHR ''-'' \<notin> set ''news'' \<and> [example_ad, example_ad2] \<noteq> [])) \<and>
   (\<forall>n. Random example_env n \<le> n) \<and>
   unseen_ads [example_ad, example_ad2] (ads_uuid_seen (client example_engine_seen)) = [] \<and>
   map_sum id (\<lambda>s. shown_notifications (calls s))
     (OnGetAds example_env SUCCESS ''US'' ''news'' [example_ad, example_ad2]
        example_engine_seen) =
   Inr [\<lparr>info_advertiser = ''Brave'', info_category = ''news'', info_text = ''Again'',
         info_url = ''https://brave.com/two'', info_creative_set_id = ''set'',
         info_uuid = ''a2''\<rparr>]"
  using OnGetAds_selects_unseen_ad
      [of SUCCESS "''news''" "[example_ad, example_ad2]" example_env "''US''"
          example_engine_seen]
  by (simp add: example_simps unseen_ads_def ResetAdsUUIDSeen_def ShowAd_def IsAdValid_def
      AppendCurrentTimeToAdsShownHistory_def Let_def)

text \<open>The last part of claim C6 fails on the code: a \<open>FAILED\<close> result for a category without
  \<open>-\<close> that comes with a non-empty list of ads passes the guard \<open>ads.empty()\<close>, and the
  invocation dispatches an ad.\<close>

theorem OnGetAds_failed_dispatches_counterexample:
  "CHR ''-'' \<notin> set ''news'' \<and>
   map_sum id (\<lambda>s. shown_notifications (calls s))
     (OnGetAds example_env FAILED ''US'' ''news'' [example_ad] example_engine) =
   Inr [\<lparr>info_advertiser = ''Brave'', info_category = ''news'', info_text = ''Hello'',
         info_url = ''https://brave.com/'', info_creative_set_id = ''set'',
         info_uuid = ''a1''\<rparr>]"
  by (simp add: OnGetAds_def Let_def ShowAd_def IsAdValid_def GetUnseenAds_def
      GetAdsUUIDSeen_def AppendCurrentTimeToAdsShownHistory_def example_simps)

text \<open>Claim C6, amended. On a \<open>FAILED\<close> result, a category with a \<open>-\<close> makes the engine ask
  again for the same region with the category cut at its last \<open>-\<close>, and nothing else: no
  notification is dispatched in this invocation. A category without \<open>-\<close> and an empty list
  of ads make the invocation return with the state as it was. A category without \<open>-\<close> and
  a non-empty list of ads make the invocation go on to the ad selection, as for \<open>SUCCESS\<close>.\<close>

theorem OnGetAds_failed_fallback:
  "(CHR ''-'' \<in> set category \<longrightarrow>
      (\<exists>new_category rest s'.
         category = new_category @ CHR ''-'' # rest \<and> CHR ''-'' \<notin> set rest \<and>
         OnGetAds e FAILED region category ads s = Inr s' \<and>
         s' = s\<lparr>calls := calls s @ [GetAds region new_category]\<rparr> \<and>
         shown_notifications (calls s') = shown_notifications (calls s))) \<and>
   (CHR ''-'' \<notin> set category \<and> ads = [] \<longrightarrow>
      OnGetAds e FAILED region category ads s = Inr s) \<and>
   (CHR ''-'' \<notin> set category \<and> ads \<noteq> [] \<longrightarrow>
      OnGetAds e FAILED region category ads s = OnGetAds e SUCCESS region category ads s)"
proof (intro conjI impI)
  assume "CHR ''-'' \<in> set category"
  then obtain pos where pos: "find_last_of category (CHR ''-'') = Some pos"
    using find_last_of_None [of category "CHR ''-''"] by auto
  from find_last_of_Some [OF pos] obtain rest
    where "category = take pos category @ CHR ''-'' # rest" "CHR ''-'' \<notin> set rest"
    by blast
  moreover have "OnGetAds e FAILED region category ads s =
      Inr (s\<lparr>calls := calls s @ [GetAds region (take pos category)]\<rparr>)"
    using pos by (simp add: OnGetAds_def Let_def)
  moreover have "shown_notifications (calls s @ [GetAds region (take pos category)]) =
      shown_notifications (calls s)"
    by (simp add: shown_notifications_append)
  ultimately show "\<exists>new_category rest s'.
         category = new_category @ CHR ''-'' # rest \<and> CHR ''-'' \<notin> set rest \<and>
         OnGetAds e FAILED region category ads s = Inr s' \<and>
         s' = s\<lparr>calls := calls s @ [GetAds region new_category]\<rparr> \<and>
         shown_notifications (calls s') = shown_notifications (calls s)"
    by (intro exI [of _ "take pos category"] exI [of _ rest]) simp
next
  assume "CHR ''-'' \<notin> set category \<and> ads = []"
  then show "OnGetAds e FAILED region category ads s = Inr s"
    by (simp add: OnGetAds_def Let_def find_last_of_None [symmetric])
next
  assume "CHR ''-'' \<notin> set category \<and> ads \<noteq> []"
  then show "OnGetAds e FAILED region category ads s =
      OnGetAds e SUCCESS region category ads s"
    by (simp add: OnGetAds_def Let_def find_last_of_None [symmetric])
qed

theorem OnGetAds_failed_fallback_witness:
  "CHR ''-'' \<in> set ''news-finance-crypto'' \<and>
   OnGetAds example_env FAILED ''US'' ''news-finance-crypto'' [] example_engine =
     Inr (example_engine\<lparr>calls := [GetAds ''US'' ''news-finance'']\<rparr>) \<and>
   CHR ''-'' \<notin> set ''news'' \<and>
   OnGetAds example_env FAILED ''US'' ''news'' [] example_engine = Inr example_engine \<and>
   [example_ad] \<noteq> [] \<and>
   OnGetAds example_env FAILED ''US'' ''news'' [example_ad] example_engine =
     OnGetAds example_env SUCCESS ''US'' ''news'' [example_ad] example_engine"
  using OnGetAds_failed_fallback
      [of "''news-finance-crypto''" example_env "''US''" "[]" example_engine]
    OnGetAds_failed_fallback [of "''news''" example_env "''US''" "[]" example_engine]
    OnGetAds_failed_fallback [of "''news''" example_env "''US''" "[example_ad]" example_engine]
  by (simp add: OnGetAds_def Let_def example_simps)

section \<open>Locale, initialization and tab events: proofs\<close>

text \<open>Claim C7. On an initialized engine, \<open>ChangeLocale\<close> sets the client locale to the given
  locale when the host's list of locales has it; otherwise to the first of the segments
  into which \<open>Split\<close> cuts the locale at \<open>_\<close>, when the list has that segment; otherwise to
  \<open>kDefaultLanguage\<close>. In all cases it then asks the host for the user model of the stored
  locale. \<open>helper::String::Split\<close> is a parameter; for a locale outside the list it has to
  give at least one segment, since \<open>front()\<close> is applied to its result.\<close>

theorem ChangeLocale_closest_match:
  assumes "IsInitialized e s = Inr True"
      and "locale \<in> set (GetLocales e) \<or> Split e locale (CHR ''_'') \<noteq> []"
  shows "\<exists>s'. ChangeLocale e locale s = Inr s' \<and>
     client_locale (client s') =
       (if locale \<in> set (GetLocales e) then locale
        else if hd (Split e locale (CHR ''_'')) \<in> set (GetLocales e)
        then hd (Split e locale (CHR ''_''))
        else kDefaultLanguage e) \<and>
     calls s' = calls s @ [LoadUserModelForLocale (client_locale (client s'))]"
  using assms
  by (auto simp: ChangeLocale_def LoadUserModel_def GetLocale_def SetLocale_def Let_def
      split: list.splits)

theorem ChangeLocale_closest_match_witness:
  "IsInitialized example_env example_engine = Inr True \<and>
   Split example_env ''es_MX'' (CHR ''_'') = [''es''] \<and>
   map_sum id (\<lambda>s. (client_locale (client s), calls s))
     (ChangeLocale (example_env\<lparr>kDefaultLanguage := ''xx''\<rparr>) ''es_MX'' example_engine) =
     Inr (''xx'', [LoadUserModelForLocale ''xx'']) \<and>
   map_sum id (\<lambda>s. (client_locale (client s), calls s))
     (ChangeLocale example_env ''fr_CA'' example_engine) =
     Inr (''fr'', [LoadUserModelForLocale ''fr'']) \<and>
   map_sum id (\<lambda>s. (client_locale (client s), calls s))
     (ChangeLocale example_env ''de'' example_engine) =
     Inr (''de'', [LoadUserModelForLocale ''de''])"
  using ChangeLocale_closest_match
      [of "example_env\<lparr>kDefaultLanguage := ''xx''\<rparr>" example_engine "''es_MX''"]
    ChangeLocale_closest_match [of example_env example_engine "''fr_CA''"]
    ChangeLocale_closest_match [of example_env example_engine "''de''"]
  by (auto simp: IsInitialized_def example_simps)

text \<open>Claim C8, evaluated on the code. The tab is not incognito and the host parses its URL
  with the scheme \<open>https\<close>, yet \<open>TabUpdated\<close> logs no load event: the only calls are the
  update of the last user activity and the focus event. When the host cannot parse the
  URL and leaves the scheme \<open>http\<close> in the components, the load event is logged.\<close>

theorem TabUpdated_skips_load_event_of_parsed_url:
  "GetUrlComponents example_env ''https://brave.com/'' =
     (True, \<lparr>scheme = ''https'', hostname = ''brave.com''\<rparr>) \<and>
   map_sum id calls
     (TabUpdated example_env 1 ''https://brave.com/'' True False example_engine) =
   Inr [ClientUpdateLastUserActivity, EventLog (FocusEvent ''stamp'' 1)] \<and>
   map_sum id calls
     (TabUpdated
        (example_env\<lparr>GetUrlComponents := (\<lambda>url. (False, \<lparr>scheme = ''http'', hostname = []\<rparr>))\<rparr>)
        1 ''brave'' True False example_engine) =
   Inr [ClientUpdateLastUserActivity,
        EventLog (LoadEvent ''stamp'' 1 ''click'' ''brave'' [[]] None),
        EventLog (FocusEvent ''stamp'' 1)]"
  by (simp add: TabUpdated_def GenerateAdReportingLoadEvent_def TestShoppingData_def
      TestSearchState_def GenerateAdReportingFocusEvent_def IsInitialized_def
      UnflagShoppingState_def UnflagSearchState_def GetSearchState_def Let_def example_simps)

text \<open>Claim C9 fails on the code as it is stated: in the state the constructor makes there
  is no user model, and \<open>IsInitialized\<close> returns false without a null dereference.\<close>

theorem IsInitialized_without_model_counterexample:
  "user_model (AdsImpl_ctor example_client) = None \<and>
   IsInitialized example_env (AdsImpl_ctor example_client) = Inr False \<and>
   IsInitialized example_env (AdsImpl_ctor example_client) \<noteq> Inl NullPointerDereference"
  by (simp add: IsInitialized_def AdsImpl_ctor_def)

text \<open>Claim C9, amended. \<open>IsInitialized\<close> dereferences \<open>user_model_\<close> only when
  \<open>is_initialized_\<close> is true and the host answers that ads are enabled: the null dereference
  happens exactly when, on top of that, there is no user model. In the state the
  constructor makes, \<open>IsInitialized\<close> returns false. \<open>Deinitialize\<close> on an initialized engine
  resets the user model and clears \<open>is_initialized_\<close>, so that \<open>IsInitialized\<close> returns false
  afterwards, whatever the host answers; on an engine that is not initialized it changes
  nothing.\<close>

theorem IsInitialized_short_circuit:
  "(IsInitialized e s = Inl NullPointerDereference) =
     (is_initialized s \<and> IsAdsEnabled e \<and> user_model s = None) \<and>
   IsInitialized e (AdsImpl_ctor c) = Inr False \<and>
   (IsInitialized e s = Inr True \<longrightarrow>
      (\<exists>s'. Deinitialize e s = Inr s' \<and> user_model s' = None \<and> \<not> is_initialized s' \<and>
            IsInitialized e' s' = Inr False)) \<and>
   (IsInitialized e s = Inr False \<longrightarrow> Deinitialize e s = Inr s)"
  by (auto simp: IsInitialized_def Deinitialize_def AdsImpl_ctor_def Let_def
      split: option.splits if_splits)

theorem IsInitialized_short_circuit_witness:
  "IsInitialized example_env example_engine = Inr True \<and>
   map_sum id (\<lambda>s. (user_model s, is_initialized s))
     (Deinitialize example_env example_engine) = Inr (None, False) \<and>
   IsInitialized example_env (example_engine\<lparr>is_initialized := False\<rparr>) = Inr False \<and>
   Deinitialize example_env (example_engine\<lparr>is_initialized := False\<rparr>) =
     Inr (example_engine\<lparr>is_initialized := False\<rparr>)"
  using IsInitialized_short_circuit [of example_env example_engine example_client example_env]
    IsInitialized_short_circuit
      [of example_env "example_engine\<lparr>is_initialized := False\<rparr>" example_client example_env]
  by (auto simp: IsInitialized_def example_simps)

end
